theory Spec2Isabelle
  imports Complex_Main "HOL-Library.Word"
begin

section \<open>JSON values and the Python operations the backend applies to them\<close>

text \<open>
  Every value that \<^verbatim>\<open>backend.py\<close> reads from a service or stores in
  \<^verbatim>\<open>conversation_history\<close> is a decoded JSON value. A Python \<^verbatim>\<open>str\<close> is
  modelled as the list of its code points, which the 8-bit \<open>char\<close> covers up to U+00FF;
  a \<^verbatim>\<open>dict\<close> as the association list of its items (the keys are distinct) with
  \<open>map_of\<close> as lookup; numbers as rationals (NaN and the infinities are not represented).
\<close>

datatype json =
    JNull
  | JBool bool
  | JNum rat
  | JStr string
  | JArr "json list"
  | JObj "(string \<times> json) list"

text \<open>The exceptions (all subclasses of \<^verbatim>\<open>Exception\<close>) that the modelled code can raise.\<close>

datatype py_exn =
    KeyError json
  | IndexError
  | TypeError
  | AttributeError
  | JSONDecodeError
  | HTTPStatusError nat
  | RequestError

fun bindE :: "py_exn + 'a \<Rightarrow> ('a \<Rightarrow> py_exn + 'b) \<Rightarrow> py_exn + 'b" where
  "bindE (Inl e) f = Inl e"
| "bindE (Inr v) f = f v"

text \<open>Truth value of a decoded JSON value, as \<^verbatim>\<open>if v:\<close> tests it.\<close>

fun truthy :: "json \<Rightarrow> bool" where
  "truthy JNull = False"
| "truthy (JBool b) = b"
| "truthy (JNum n) = (n \<noteq> 0)"
| "truthy (JStr s) = (s \<noteq> [])"
| "truthy (JArr xs) = (xs \<noteq> [])"
| "truthy (JObj kvs) = (kvs \<noteq> [])"

text \<open>\<^verbatim>\<open>v[k]\<close> for a string key: only a dict can answer, with KeyError when the key is missing.\<close>

fun getitem :: "json \<Rightarrow> string \<Rightarrow> py_exn + json" where
  "getitem (JObj kvs) k = (case map_of kvs k of None \<Rightarrow> Inl (KeyError (JStr k)) | Some v \<Rightarrow> Inr v)"
| "getitem v k = Inl TypeError"

text \<open>\<^verbatim>\<open>v[0]\<close>: first element of a list, first character of a string; a decoded dict has
  string keys only, so \<open>0\<close> is a missing key.\<close>

fun getitem0 :: "json \<Rightarrow> py_exn + json" where
  "getitem0 (JArr xs) = (case xs of [] \<Rightarrow> Inl IndexError | x # rest \<Rightarrow> Inr x)"
| "getitem0 (JStr s) = (case s of [] \<Rightarrow> Inl IndexError | c # rest \<Rightarrow> Inr (JStr [c]))"
| "getitem0 (JObj kvs) = Inl (KeyError (JNum 0))"
| "getitem0 v = Inl TypeError"

text \<open>\<^verbatim>\<open>v.get(k, d)\<close>: an attribute of dicts only.\<close>

fun dict_get :: "json \<Rightarrow> string \<Rightarrow> json \<Rightarrow> py_exn + json" where
  "dict_get (JObj kvs) k d = (case map_of kvs k of None \<Rightarrow> Inr d | Some v \<Rightarrow> Inr v)"
| "dict_get v k d = Inl AttributeError"

text \<open>\<^verbatim>\<open>s.strip()\<close>: the characters below U+0100 for which \<^verbatim>\<open>str.isspace\<close> holds.\<close>

definition is_space :: "char \<Rightarrow> bool" where
  "is_space c = ((of_char c :: nat) \<in> {9, 10, 11, 12, 13, 28, 29, 30, 31, 32, 133, 160})"

definition strip :: "string \<Rightarrow> string" where
  "strip s = rev (dropWhile is_space (rev (dropWhile is_space s)))"

section \<open>The services and library functions the backend calls\<close>

type_synonym bytes = "8 word list"

text \<open>
  An HTTP exchange through \<^verbatim>\<open>httpx\<close> followed by \<^verbatim>\<open>raise_for_status()\<close>:
  the request itself raises (\<open>RequestFailed\<close>), the status check raises with the
  response's status code (\<open>StatusError\<close>), or the response is accepted. For the JSON
  services the accepted value is what \<^verbatim>\<open>response.json()\<close> gives, \<open>None\<close> when the
  body does not decode.
\<close>

datatype 'a http_result = RequestFailed | StatusError nat | Success 'a

datatype call = SttCall bytes | LlmCall json | TtsCall json | WeatherCall json

text \<open>
  The environment: the configured credential, the library functions whose results the
  code uses (\<^verbatim>\<open>json.loads\<close>, \<^verbatim>\<open>str()\<close> of a value that is not a string,
  \<^verbatim>\<open>str(e)\<close> of an exception, \<^verbatim>\<open>base64.b64encode\<close>), the four services and
  the websocket's send. Each service reads and updates a world state \<open>'w\<close>, so it may
  answer every call differently; \<open>ws_send\<close> gives \<open>False\<close> when the send raises.
\<close>

record 'w env =
  WEATHER_API_KEY :: string
  json_loads :: "string \<Rightarrow> json option"
  py_str :: "json \<Rightarrow> string"
  exn_str :: "py_exn \<Rightarrow> string"
  b64encode :: "bytes \<Rightarrow> string"
  stt_post :: "'w \<Rightarrow> bytes \<Rightarrow> json option http_result \<times> 'w"
  llm_post :: "'w \<Rightarrow> json \<Rightarrow> json option http_result \<times> 'w"
  tts_post :: "'w \<Rightarrow> json \<Rightarrow> bytes http_result \<times> 'w"
  weather_get :: "'w \<Rightarrow> json \<Rightarrow> json option http_result \<times> 'w"
  ws_send :: "'w \<Rightarrow> json \<Rightarrow> bool \<times> 'w"

text \<open>
  The state of one connection: the assistant's \<^verbatim>\<open>conversation_history\<close>, the
  endpoint's \<^verbatim>\<open>audio_buffer\<close>, the events sent so far, the service calls made so
  far (in order), and the world.
\<close>

record 'w session =
  conversation_history :: "json list"
  audio_buffer :: bytes
  sent :: "json list"
  trace :: "call list"
  world :: 'w

text \<open>What an f-string inserts for a value: a string as it is, anything else through \<^verbatim>\<open>str()\<close>.\<close>

definition fmt :: "'w env \<Rightarrow> json \<Rightarrow> string" where
  "fmt env v = (case v of JStr s \<Rightarrow> s | _ \<Rightarrow> py_str env v)"

text \<open>\<^verbatim>\<open>response.json()\<close> after a request that passed \<^verbatim>\<open>raise_for_status()\<close>.\<close>

fun json_of_response :: "json option http_result \<Rightarrow> py_exn + json" where
  "json_of_response RequestFailed = Inl RequestError"
| "json_of_response (StatusError c) = Inl (HTTPStatusError c)"
| "json_of_response (Success None) = Inl JSONDecodeError"
| "json_of_response (Success (Some v)) = Inr v"

section \<open>Tool registry: \<^verbatim>\<open>get_weather\<close> and \<^verbatim>\<open>execute_tool_call\<close>\<close>

definition weather_text :: "'w env \<Rightarrow> json \<Rightarrow> py_exn + string" where
  "weather_text env data =
     bindE (getitem data ''name'') (\<lambda>location.
     bindE (bindE (getitem data ''sys'') (\<lambda>sys. getitem sys ''country'')) (\<lambda>country.
     bindE (bindE (getitem data ''main'') (\<lambda>main. getitem main ''temp'')) (\<lambda>temperature.
     bindE (bindE (getitem data ''main'') (\<lambda>main. getitem main ''feels_like'')) (\<lambda>feels_like.
     bindE (bindE (getitem data ''main'') (\<lambda>main. getitem main ''humidity'')) (\<lambda>humidity.
     bindE (bindE (bindE (getitem data ''weather'') getitem0) (\<lambda>w. getitem w ''description''))
       (\<lambda>description.
     bindE (bindE (getitem data ''wind'') (\<lambda>wind. getitem wind ''speed'')) (\<lambda>wind_speed.
       Inr (''Current weather in '' @ fmt env location @ '', '' @ fmt env country @ '': ''
            @ fmt env description @ ''. ''
            @ ''Temperature: '' @ fmt env temperature @ [CHR 0xB0] @ ''C (feels like ''
            @ fmt env feels_like @ [CHR 0xB0] @ ''C). ''
            @ ''Humidity: '' @ fmt env humidity @ ''%. ''
            @ ''Wind speed: '' @ fmt env wind_speed @ '' m/s.''))))))))"

text \<open>The \<^verbatim>\<open>try\<close> block of \<^verbatim>\<open>get_weather\<close>: its text, or the exception it raises.\<close>

definition get_weather_body :: "'w env \<Rightarrow> 'w session \<Rightarrow> json \<Rightarrow> (py_exn + string) \<times> 'w session" where
  "get_weather_body env s location =
     (if WEATHER_API_KEY env = [] then
        (Inr ''Weather API key not configured. Please set WEATHER_API_KEY environment variable.'', s)
      else
        (let (r, w') = weather_get env (world s) location;
             s' = s\<lparr>trace := trace s @ [WeatherCall location], world := w'\<rparr>
         in (bindE (json_of_response r) (weather_text env), s')))"

text \<open>The two \<^verbatim>\<open>except\<close> clauses of \<^verbatim>\<open>get_weather\<close>, in the source's order.\<close>

definition get_weather :: "'w env \<Rightarrow> 'w session \<Rightarrow> json \<Rightarrow> string \<times> 'w session" where
  "get_weather env s location =
     (case get_weather_body env s location of
        (Inr text, s') \<Rightarrow> (text, s')
      | (Inl (HTTPStatusError c), s') \<Rightarrow>
          (if c = 404 then
             (''Location '' @ [CHR 0x27] @ fmt env location @ [CHR 0x27]
                @ '' not found. Please check the city name.'', s')
           else (''Error fetching weather: '' @ exn_str env (HTTPStatusError c), s'))
      | (Inl e, s') \<Rightarrow> (''Unable to fetch weather data: '' @ exn_str env e, s'))"

definition execute_tool_call ::
  "'w env \<Rightarrow> 'w session \<Rightarrow> json \<Rightarrow> json \<Rightarrow> (py_exn + string) \<times> 'w session" where
  "execute_tool_call env s tool_name arguments =
     (if tool_name = JStr ''get_weather'' then
        (case dict_get arguments ''location'' (JStr []) of
           Inl e \<Rightarrow> (Inl e, s)
         | Inr location \<Rightarrow> (let (text, s') = get_weather env s location in (Inr text, s')))
      else (Inr (''Unknown tool: '' @ fmt env tool_name), s))"

section \<open>Reasoning step: \<^verbatim>\<open>chat_with_llm\<close>\<close>

definition TOOLS :: json where
  "TOOLS = JArr [JObj [
     (''type'', JStr ''function''),
     (''function'', JObj [
        (''name'', JStr ''get_weather''),
        (''description'', JStr ''Get the current weather for a specific location. Use this when the user asks about weather conditions.''),
        (''parameters'', JObj [
           (''type'', JStr ''object''),
           (''properties'', JObj [
              (''location'', JObj [
                 (''type'', JStr ''string''),
                 (''description'', JStr (''The city name or location (e.g., '' @ [CHR 0x27] @ ''Tokyo''
                    @ [CHR 0x27] @ '', '' @ [CHR 0x27] @ ''London, UK'' @ [CHR 0x27] @ '', ''
                    @ [CHR 0x27] @ ''New York'' @ [CHR 0x27] @ '')''))])]),
           (''required'', JArr [JStr ''location''])])])]]"

definition system_with_tools :: json where
  "system_with_tools = JObj [
     (''role'', JStr ''system''),
     (''content'', JStr ''You are a helpful voice assistant. Keep responses concise and natural for voice output. When the user asks about weather, use the get_weather tool to provide accurate current information.'')]"

definition system_plain :: json where
  "system_plain = JObj [
     (''role'', JStr ''system''),
     (''content'', JStr ''You are a helpful voice assistant. Keep responses concise and natural for voice output.'')]"

definition chat_payload :: "json \<Rightarrow> json list \<Rightarrow> json" where
  "chat_payload system history = JObj [
     (''model'', JStr ''Qwen/Qwen2.5-7B-Instruct-GPTQ-Int4''),
     (''messages'', JArr (system # history)),
     (''tools'', TOOLS),
     (''tool_choice'', JStr ''auto''),
     (''temperature'', JNum (7 / 10)),
     (''max_tokens'', JNum 150)]"

definition not_sure_reply :: string where
  "not_sure_reply = ''I'' @ [CHR 0x27] @ ''m not sure how to respond to that.''"

definition trouble_reply :: string where
  "trouble_reply = ''I'' @ [CHR 0x27] @ ''m having trouble processing your request. Please try again.''"

text \<open>The four kinds of entry the code appends to \<^verbatim>\<open>conversation_history\<close>.\<close>

definition user_entry :: "string \<Rightarrow> json" where
  "user_entry user_message = JObj [(''role'', JStr ''user''), (''content'', JStr user_message)]"

definition invocation_entry :: "json \<Rightarrow> json" where
  "invocation_entry tool_calls =
     JObj [(''role'', JStr ''assistant''), (''content'', JNull), (''tool_calls'', tool_calls)]"

definition result_entry :: "json \<Rightarrow> json \<Rightarrow> string \<Rightarrow> json" where
  "result_entry call_id function_name tool_result =
     JObj [(''role'', JStr ''tool''), (''tool_call_id'', call_id), (''name'', function_name),
           (''content'', JStr tool_result)]"

definition reply_entry :: "json \<Rightarrow> json" where
  "reply_entry assistant_message = JObj [(''role'', JStr ''assistant''), (''content'', assistant_message)]"

definition append_history :: "'w session \<Rightarrow> json \<Rightarrow> 'w session" where
  "append_history s entry = s\<lparr>conversation_history := conversation_history s @ [entry]\<rparr>"

text \<open>\<^verbatim>\<open>json.loads(v)\<close>: a TypeError unless \<open>v\<close> is a string.\<close>

definition loads :: "'w env \<Rightarrow> json \<Rightarrow> py_exn + json" where
  "loads env v =
     (case v of
        JStr s \<Rightarrow> (case json_loads env s of None \<Rightarrow> Inl JSONDecodeError | Some x \<Rightarrow> Inr x)
      | _ \<Rightarrow> Inl TypeError)"

text \<open>One POST to \<^verbatim>\<open>/chat/completions\<close>, up to \<^verbatim>\<open>result["choices"][0]["message"]\<close>.\<close>

definition llm_request :: "'w env \<Rightarrow> 'w session \<Rightarrow> json \<Rightarrow> (py_exn + json) \<times> 'w session" where
  "llm_request env s payload =
     (let (r, w') = llm_post env (world s) payload;
          s' = s\<lparr>trace := trace s @ [LlmCall payload], world := w'\<rparr>
      in (bindE (json_of_response r) (\<lambda>result.
            bindE (bindE (getitem result ''choices'') getitem0) (\<lambda>choice.
              getitem choice ''message'')), s'))"

text \<open>Lines 244 and 245: \<^verbatim>\<open>history[-10:]\<close> when there are more than 10 entries.\<close>

definition trim_history :: "json list \<Rightarrow> json list" where
  "trim_history h = (if length h > 10 then drop (length h - 10) h else h)"

text \<open>Lines 234 to 248: the reply, its history entry, and the trim.\<close>

definition final_response :: "'w session \<Rightarrow> json \<Rightarrow> (py_exn + json) \<times> 'w session" where
  "final_response s message =
     (case dict_get message ''content'' (JStr not_sure_reply) of
        Inl e \<Rightarrow> (Inl e, s)
      | Inr assistant_message \<Rightarrow>
          (Inr assistant_message,
           s\<lparr>conversation_history :=
               trim_history (conversation_history s @ [reply_entry assistant_message])\<rparr>))"

text \<open>Lines 194 to 196: the first listed tool call, its function name and its decoded arguments.\<close>

definition parse_tool_call :: "'w env \<Rightarrow> json \<Rightarrow> py_exn + json \<times> json \<times> json" where
  "parse_tool_call env message =
     bindE (bindE (getitem message ''tool_calls'') getitem0) (\<lambda>tool_call.
     bindE (bindE (getitem tool_call ''function'') (\<lambda>f. getitem f ''name'')) (\<lambda>function_name.
     bindE (bindE (bindE (getitem tool_call ''function'') (\<lambda>f. getitem f ''arguments'')) (loads env))
       (\<lambda>function_args. Inr (tool_call, function_name, function_args))))"

text \<open>Lines 194 to 232, taken when \<^verbatim>\<open>message.get("tool_calls")\<close> is true.\<close>

definition tool_call_step :: "'w env \<Rightarrow> 'w session \<Rightarrow> json \<Rightarrow> (py_exn + json) \<times> 'w session" where
  "tool_call_step env s message =
     (case parse_tool_call env message of
        Inl e \<Rightarrow> (Inl e, s)
      | Inr (tool_call, function_name, function_args) \<Rightarrow>
     (case execute_tool_call env s function_name function_args of
        (Inl e, s1) \<Rightarrow> (Inl e, s1)
      | (Inr tool_result, s1) \<Rightarrow>
     (case getitem message ''tool_calls'' of
        Inl e \<Rightarrow> (Inl e, s1)
      | Inr tool_calls \<Rightarrow>
     (let s2 = append_history s1 (invocation_entry tool_calls) in
      case getitem tool_call ''id'' of
        Inl e \<Rightarrow> (Inl e, s2)
      | Inr call_id \<Rightarrow>
     (let s3 = append_history s2 (result_entry call_id function_name tool_result) in
      case llm_request env s3 (chat_payload system_plain (conversation_history s3)) of
        (Inl e, s4) \<Rightarrow> (Inl e, s4)
      | (Inr message2, s4) \<Rightarrow> final_response s4 message2)))))"

text \<open>The \<^verbatim>\<open>try\<close> block of \<^verbatim>\<open>chat_with_llm\<close>: the reply, or the exception raised,
  with the session as it is at that point.\<close>

definition chat_body :: "'w env \<Rightarrow> 'w session \<Rightarrow> string \<Rightarrow> (py_exn + json) \<times> 'w session" where
  "chat_body env s user_message =
     (let s1 = append_history s (user_entry user_message) in
      case llm_request env s1 (chat_payload system_with_tools (conversation_history s1)) of
        (Inl e, s2) \<Rightarrow> (Inl e, s2)
      | (Inr message, s2) \<Rightarrow>
          (case dict_get message ''tool_calls'' JNull of
             Inl e \<Rightarrow> (Inl e, s2)
           | Inr tool_calls \<Rightarrow>
               if truthy tool_calls then tool_call_step env s2 message
               else final_response s2 message))"

definition chat_with_llm :: "'w env \<Rightarrow> 'w session \<Rightarrow> string \<Rightarrow> json \<times> 'w session" where
  "chat_with_llm env s user_message =
     (case chat_body env s user_message of
        (Inl e, s') \<Rightarrow> (JStr trouble_reply, s')
      | (Inr reply, s') \<Rightarrow> (reply, s'))"

section \<open>Transcription, synthesis and the pipeline\<close>

definition transcribe_audio :: "'w env \<Rightarrow> 'w session \<Rightarrow> bytes \<Rightarrow> string option \<times> 'w session" where
  "transcribe_audio env s audio_data =
     (let (r, w') = stt_post env (world s) audio_data;
          s' = s\<lparr>trace := trace s @ [SttCall audio_data], world := w'\<rparr>
      in (case bindE (json_of_response r) (\<lambda>result. dict_get result ''text'' (JStr [])) of
            Inr (JStr text) \<Rightarrow> Some (strip text)
          | _ \<Rightarrow> None, s'))"

definition tts_payload :: "json \<Rightarrow> json" where
  "tts_payload text = JObj [
     (''model'', JStr ''kokoro''),
     (''input'', text),
     (''voice'', JStr ''af_sky''),
     (''response_format'', JStr ''mp3''),
     (''speed'', JNum 1)]"

text \<open>\<^verbatim>\<open>text[:50]\<close> in the log line raises a TypeError unless \<open>text\<close> is a string or a list.\<close>

fun sliceable :: "json \<Rightarrow> bool" where
  "sliceable (JStr s) = True"
| "sliceable (JArr xs) = True"
| "sliceable v = False"

definition text_to_speech :: "'w env \<Rightarrow> 'w session \<Rightarrow> json \<Rightarrow> bytes option \<times> 'w session" where
  "text_to_speech env s text =
     (if sliceable text then
        (let (r, w') = tts_post env (world s) (tts_payload text);
             s' = s\<lparr>trace := trace s @ [TtsCall (tts_payload text)], world := w'\<rparr>
         in (case r of Success audio_data \<Rightarrow> Some audio_data | _ \<Rightarrow> None, s'))
      else (None, s))"

text \<open>Each of the three steps catches \<^verbatim>\<open>Exception\<close> itself, so none raises and the
  outer \<^verbatim>\<open>except\<close> clause of \<^verbatim>\<open>process_voice_input\<close> has no path to it.\<close>

definition process_voice_input :: "'w env \<Rightarrow> 'w session \<Rightarrow> bytes \<Rightarrow> bytes option \<times> 'w session" where
  "process_voice_input env s audio_data =
     (case transcribe_audio env s audio_data of
        (None, s1) \<Rightarrow> (None, s1)
      | (Some text, s1) \<Rightarrow>
          if text = [] then (None, s1)
          else (let (response_text, s2) = chat_with_llm env s1 text
                in text_to_speech env s2 response_text))"

section \<open>Session: \<^verbatim>\<open>websocket_endpoint\<close>\<close>

text \<open>What \<^verbatim>\<open>websocket.receive()\<close> returns: a message with a \<^verbatim>\<open>bytes\<close> payload,
  one with a \<^verbatim>\<open>text\<close> payload, or one with neither.\<close>

datatype frame = BytesFrame bytes | TextFrame string | OtherFrame

definition status_event :: "string \<Rightarrow> json" where
  "status_event st = JObj [(''type'', JStr ''status''), (''status'', JStr st)]"

definition audio_response_event :: "'w env \<Rightarrow> bytes \<Rightarrow> json" where
  "audio_response_event env audio_response = JObj [
     (''type'', JStr ''audio_response''),
     (''audio'', JStr (b64encode env audio_response)),
     (''format'', JStr ''mp3'')]"

definition error_event :: json where
  "error_event = JObj [(''type'', JStr ''error''), (''message'', JStr ''Failed to process audio'')]"

text \<open>\<^verbatim>\<open>websocket.send_json(event)\<close>: whether it returned, and the session after it.\<close>

definition send_json :: "'w env \<Rightarrow> 'w session \<Rightarrow> json \<Rightarrow> bool \<times> 'w session" where
  "send_json env s event =
     (let (ok, w') = ws_send env (world s) event
      in (ok, s\<lparr>sent := (if ok then sent s @ [event] else sent s), world := w'\<rparr>))"

text \<open>A send outside any inner \<^verbatim>\<open>try\<close>: a failure leaves the receive loop.\<close>

definition send_or_raise :: "'w env \<Rightarrow> 'w session \<Rightarrow> json \<Rightarrow> 'w session + 'w session" where
  "send_or_raise env s event = (case send_json env s event of (ok, s') \<Rightarrow> if ok then Inr s' else Inl s')"

text \<open>Lines 328 to 370. \<open>Inl\<close> is the session at the point where the loop is left by an
  exception, \<open>Inr\<close> the session when the loop goes on to the next \<^verbatim>\<open>receive\<close>.\<close>

definition on_audio_end :: "'w env \<Rightarrow> 'w session \<Rightarrow> 'w session + 'w session" where
  "on_audio_end env s =
     (if audio_buffer s \<noteq> [] then
        (case send_or_raise env s (status_event ''processing'') of
           Inl s1 \<Rightarrow> Inl s1
         | Inr s1 \<Rightarrow>
        (case process_voice_input env s1 (audio_buffer s1) of (audio_response, s2) \<Rightarrow>
        (let s3 = s2\<lparr>audio_buffer := []\<rparr> in
         case (case audio_response of
                 None \<Rightarrow> send_or_raise env s3 error_event
               | Some audio \<Rightarrow>
                   if audio \<noteq> [] then Inr (snd (send_json env s3 (audio_response_event env audio)))
                   else send_or_raise env s3 error_event) of
           Inl s4 \<Rightarrow> Inl s4
         | Inr s4 \<Rightarrow> send_or_raise env s4 (status_event ''ready''))))
      else Inr s)"

definition on_reset :: "'w env \<Rightarrow> 'w session \<Rightarrow> 'w session + 'w session" where
  "on_reset env s =
     send_or_raise env (s\<lparr>conversation_history := [], audio_buffer := []\<rparr>) (status_event ''reset_complete'')"

text \<open>One iteration of the receive loop, for the frame received.\<close>

definition handle_frame :: "'w env \<Rightarrow> 'w session \<Rightarrow> frame \<Rightarrow> 'w session + 'w session" where
  "handle_frame env s fr =
     (case fr of
        BytesFrame chunk \<Rightarrow> Inr (s\<lparr>audio_buffer := audio_buffer s @ chunk\<rparr>)
      | TextFrame text \<Rightarrow>
          (case json_loads env text of
             None \<Rightarrow> Inl s
           | Some message \<Rightarrow>
               (case dict_get message ''type'' JNull of
                  Inl e \<Rightarrow> Inl s
                | Inr ty \<Rightarrow>
                    if ty = JStr ''audio_end'' then on_audio_end env s
                    else if ty = JStr ''reset'' then on_reset env s
                    else Inr s))
      | OtherFrame \<Rightarrow> Inr s)"

definition new_session :: "'w \<Rightarrow> 'w session" where
  "new_session w = \<lparr>conversation_history = [], audio_buffer = [], sent = [], trace = [], world = w\<rparr>"

text \<open>The receive loop over the frames that arrive, until an exception leaves it.\<close>

fun receive_loop :: "'w env \<Rightarrow> 'w session \<Rightarrow> frame list \<Rightarrow> 'w session + 'w session" where
  "receive_loop env s [] = Inr s"
| "receive_loop env s (fr # frames) =
     (case handle_frame env s fr of
        Inl s' \<Rightarrow> Inl s'
      | Inr s' \<Rightarrow> receive_loop env s' frames)"

definition websocket_endpoint :: "'w env \<Rightarrow> 'w \<Rightarrow> frame list \<Rightarrow> 'w session + 'w session" where
  "websocket_endpoint env w frames = receive_loop env (new_session w) frames"

section \<open>Scripted services, for instantiating the theorems at concrete inputs\<close>

text \<open>\<^verbatim>\<open>json.loads\<close> on the few texts the examples use; any other text does not decode.\<close>

definition example_loads :: "string \<Rightarrow> json option" where
  \<open>example_loads text =
     (if text = ''{"type": "audio_end"}'' then Some (JObj [(''type'', JStr ''audio_end'')])
      else if text = ''{"type": "reset"}'' then Some (JObj [(''type'', JStr ''reset'')])
      else if text = ''{"location": "Tokyo"}'' then Some (JObj [(''location'', JStr ''Tokyo'')])
      else if text = ''{}'' then Some (JObj [])
      else None)\<close>

text \<open>
  Services that answer from a script: the world is the list of answers the reasoning
  service has still to give (once it is used up, the request fails); transcription,
  synthesis and the weather service always give the same answer; every send succeeds.
\<close>

definition scripted_env ::
  "string \<Rightarrow> json option http_result \<Rightarrow> bytes http_result \<Rightarrow> json option http_result
     \<Rightarrow> (json option http_result list) env" where
  "scripted_env key stt tts weather = \<lparr>
     WEATHER_API_KEY = key,
     json_loads = example_loads,
     py_str = (\<lambda>v. ''?''),
     exn_str = (\<lambda>e. ''failed''),
     b64encode = (\<lambda>b. ''AQID''),
     stt_post = (\<lambda>w audio. (stt, w)),
     llm_post = (\<lambda>w payload. case w of [] \<Rightarrow> (RequestFailed, []) | r # rest \<Rightarrow> (r, rest)),
     tts_post = (\<lambda>w payload. (tts, w)),
     weather_get = (\<lambda>w location. (weather, w)),
     ws_send = (\<lambda>w event. (True, w))\<rparr>"

definition llm_message :: "json \<Rightarrow> json option http_result" where
  "llm_message message = Success (Some (JObj [(''choices'', JArr [JObj [(''message'', message)]])]))"

definition stt_text :: "string \<Rightarrow> json option http_result" where
  "stt_text text = Success (Some (JObj [(''text'', JStr text)]))"

text \<open>The examples: a turn of two audio bytes followed by the turn-end message; services
  that transcribe \<open>hello\<close> and synthesize three bytes; services that transcribe the
  empty string; replies of the reasoning service with a text, or with tool calls.\<close>

definition audio_end_text :: string where
  \<open>audio_end_text = ''{"type": "audio_end"}''\<close>

definition tokyo_text :: string where
  \<open>tokyo_text = ''{"location": "Tokyo"}''\<close>

definition one_turn :: "frame list" where
  "one_turn = [BytesFrame [1, 2], TextFrame audio_end_text]"

definition services_up :: "(json option http_result list) env" where
  "services_up = scripted_env ''key'' (stt_text ''hello'') (Success [1, 2, 3]) (StatusError 404)"

definition nothing_said :: "(json option http_result list) env" where
  "nothing_said = scripted_env ''key'' (stt_text []) (Success [1, 2, 3]) (StatusError 404)"

definition plain_message :: "string \<Rightarrow> json" where
  "plain_message text = JObj [(''role'', JStr ''assistant''), (''content'', JStr text)]"

definition weather_call :: "(string \<times> json) list \<Rightarrow> string \<Rightarrow> json" where
  "weather_call id_field arguments = JObj (id_field @ [
     (''type'', JStr ''function''),
     (''function'', JObj [(''name'', JStr ''get_weather''), (''arguments'', JStr arguments)])])"

definition tool_message :: "json list \<Rightarrow> json" where
  "tool_message calls =
     JObj [(''role'', JStr ''assistant''), (''content'', JNull), (''tool_calls'', JArr calls)]"

text \<open>Scripts of the reasoning service: a first reply listing two tool calls, a
  follow-up that asks for a tool again, and a text; a tool call whose arguments are not
  JSON; a tool call without an id; a reply whose content is null.\<close>

definition script_two_tool_calls :: "json option http_result list" where
  \<open>script_two_tool_calls = [
     llm_message (tool_message [weather_call [(''id'', JStr ''call_1'')] tokyo_text,
                                weather_call [(''id'', JStr ''call_2'')] ''{}'']),
     llm_message (JObj [(''role'', JStr ''assistant''), (''content'', JStr ''One moment''),
                        (''tool_calls'', JArr [weather_call [(''id'', JStr ''call_3'')] tokyo_text])]),
     llm_message (plain_message ''Hi'')]\<close>

definition script_bad_arguments :: "json option http_result list" where
  "script_bad_arguments = [
     llm_message (tool_message [weather_call [(''id'', JStr ''call_1'')] ''Tokyo'']),
     llm_message (plain_message ''Hi'')]"

definition script_no_id :: "json option http_result list" where
  "script_no_id = [
     llm_message (tool_message [weather_call [] tokyo_text]),
     llm_message (plain_message ''Hi'')]"

definition script_null_content :: "json option http_result list" where
  "script_null_content = [llm_message (JObj [(''role'', JStr ''assistant''), (''content'', JNull)])]"

text \<open>A session that has received the two audio bytes of \<open>one_turn\<close>.\<close>

definition buffered :: "'w \<Rightarrow> 'w session" where
  "buffered w = (new_session w)\<lparr>audio_buffer := [1, 2]\<rparr>"

text \<open>More scripts and texts: six replies with different texts; a reply whose content is
  the boolean true; a well-formed tool call with nothing after it, so that the follow-up
  request fails; the reset message.\<close>

definition script_six_replies :: "json option http_result list" where
  "script_six_replies = [
     llm_message (plain_message ''r1''), llm_message (plain_message ''r2''),
     llm_message (plain_message ''r3''), llm_message (plain_message ''r4''),
     llm_message (plain_message ''r5''), llm_message (plain_message ''r6'')]"

definition script_content_true :: "json option http_result list" where
  "script_content_true = [llm_message (JObj [(''role'', JStr ''assistant''), (''content'', JBool True)])]"

definition script_follow_up_fails :: "json option http_result list" where
  "script_follow_up_fails = [llm_message (tool_message [weather_call [(''id'', JStr ''call_1'')] tokyo_text])]"

definition reset_text :: string where
  \<open>reset_text = ''{"type": "reset"}''\<close>

text \<open>A session whose history holds ten entries (five turns), with two audio bytes
  buffered and one reply of the reasoning service to come.\<close>

definition ten_entries :: "json list" where
  "ten_entries = [
     user_entry ''hello'', reply_entry (JStr ''r1''), user_entry ''hello'', reply_entry (JStr ''r2''),
     user_entry ''hello'', reply_entry (JStr ''r3''), user_entry ''hello'', reply_entry (JStr ''r4''),
     user_entry ''hello'', reply_entry (JStr ''r5'')]"

definition full_session :: "(json option http_result list) session" where
  "full_session = (buffered [llm_message (plain_message ''r6'')])\<lparr>conversation_history := ten_entries\<rparr>"

text \<open>Six turns in a row.\<close>

definition six_turns :: "frame list" where
  "six_turns = one_turn @ one_turn @ one_turn @ one_turn @ one_turn @ one_turn"

section \<open>Vocabulary of the properties\<close>

text \<open>The number of requests to the reasoning service among some service calls.\<close>

fun is_llm_call :: "call \<Rightarrow> bool" where
  "is_llm_call (LlmCall payload) = True"
| "is_llm_call c = False"

definition llm_calls :: "call list \<Rightarrow> nat" where
  "llm_calls calls = length (filter is_llm_call calls)"

text \<open>An entry whose role is one of the three that the code stores.\<close>

definition stored_role :: "json \<Rightarrow> bool" where
  "stored_role entry =
     (getitem entry ''role'' = Inr (JStr ''user'') \<or> getitem entry ''role'' = Inr (JStr ''assistant'')
      \<or> getitem entry ''role'' = Inr (JStr ''tool''))"

text \<open>The entries that a turn's tool call adds between the user entry and the reply:
  none, the invocation alone, or the invocation and its result.\<close>

definition tool_entries :: "json list \<Rightarrow> bool" where
  "tool_entries extra =
     (extra = [] \<or> (\<exists>tool_calls. extra = [invocation_entry tool_calls])
      \<or> (\<exists>tool_calls call_id function_name tool_result.
            extra = [invocation_entry tool_calls, result_entry call_id function_name tool_result]))"


text \<open>The number of tool executions that reached the weather service.\<close>

fun is_weather_call :: "call \<Rightarrow> bool" where
  "is_weather_call (WeatherCall location) = True"
| "is_weather_call c = False"

definition tool_runs :: "call list \<Rightarrow> nat" where
  "tool_runs calls = length (filter is_weather_call calls)"

text \<open>The first exchange of a turn with the reasoning service: the message of the
  response (or the exception), and the session after the request.\<close>

definition first_exchange :: "'w env \<Rightarrow> 'w session \<Rightarrow> string \<Rightarrow> (py_exn + json) \<times> 'w session" where
  "first_exchange env s user_message =
     (let s1 = append_history s (user_entry user_message)
      in llm_request env s1 (chat_payload system_with_tools (conversation_history s1)))"

text \<open>The message carries a tool call: \<^verbatim>\<open>message.get("tool_calls")\<close> returns a true value.\<close>

definition requests_tool :: "json \<Rightarrow> bool" where
  "requests_tool message =
     (case dict_get message ''tool_calls'' JNull of Inl e \<Rightarrow> False | Inr tool_calls \<Rightarrow> truthy tool_calls)"

text \<open>The first listed tool call is processed without an exception: it has a function
  name and arguments that decode, the tool's execution returns, and the call has an id.\<close>

definition tool_call_succeeds :: "'w env \<Rightarrow> 'w session \<Rightarrow> json \<Rightarrow> bool" where
  "tool_call_succeeds env s message =
     (case parse_tool_call env message of
        Inl e \<Rightarrow> False
      | Inr (tool_call, function_name, function_args) \<Rightarrow>
          (case fst (execute_tool_call env s function_name function_args) of
             Inl e \<Rightarrow> False
           | Inr tool_result \<Rightarrow>
               (case getitem tool_call ''id'' of Inl e \<Rightarrow> False | Inr call_id \<Rightarrow> True)))"

text \<open>The location is the one that the first listed tool call, a \<open>get_weather\<close> call, asks for.\<close>

definition first_listed_location :: "'w env \<Rightarrow> json \<Rightarrow> json \<Rightarrow> bool" where
  "first_listed_location env message location =
     (case parse_tool_call env message of
        Inl e \<Rightarrow> False
      | Inr (tool_call, function_name, function_args) \<Rightarrow>
          bindE (getitem message ''tool_calls'') getitem0 = Inr tool_call \<and>
          function_name = JStr ''get_weather'' \<and>
          dict_get function_args ''location'' (JStr []) = Inr location)"

text \<open>The session when an iteration of the receive loop ends, by an exception or not.\<close>

fun final_session :: "'w session + 'w session \<Rightarrow> 'w session" where
  "final_session (Inl s) = s"
| "final_session (Inr s) = s"


fun is_object :: "json \<Rightarrow> bool" where
  "is_object (JObj kvs) = True"
| "is_object v = False"










section \<open>Tool execution always gives a text\<close>

lemma bindE_eq_Inr: "bindE r f = Inr y \<longleftrightarrow> (\<exists>v. r = Inr v \<and> f v = Inr y)"
  by (cases r) auto

lemma weather_text_nonempty: "weather_text env data = Inr t \<Longrightarrow> t \<noteq> []"
  by (auto simp: weather_text_def bindE_eq_Inr)

lemma get_weather_nonempty: "get_weather env s location = (text, s') \<Longrightarrow> text \<noteq> []"
  by (auto simp: get_weather_def get_weather_body_def bindE_eq_Inr Let_def
      split: prod.splits sum.splits py_exn.splits if_splits dest: weather_text_nonempty)

text \<open>The sentences for a missing credential and for a location that is not found.\<close>

lemma get_weather_without_key:
  "WEATHER_API_KEY env = [] \<Longrightarrow>
   get_weather env s location =
     (''Weather API key not configured. Please set WEATHER_API_KEY environment variable.'', s)"
  by (simp add: get_weather_def get_weather_body_def)

lemma get_weather_not_found:
  "WEATHER_API_KEY env \<noteq> [] \<Longrightarrow> fst (weather_get env (world s) location) = StatusError 404 \<Longrightarrow>
   fst (get_weather env s location) =
     ''Location '' @ [CHR 0x27] @ fmt env location @ [CHR 0x27] @ '' not found. Please check the city name.''"
  by (cases "weather_get env (world s) location")
     (simp add: get_weather_def get_weather_body_def)

text \<open>
  C5. For every tool name and every argument mapping, \<open>execute_tool_call\<close> returns
  (it raises nothing) and the text it returns is not empty, whatever the credential
  and whatever the weather service does; for a name other than \<open>get_weather\<close> the text
  is the literal \<open>Unknown tool: \<close> followed by the name, and no service is called.
\<close>

theorem execute_tool_call_total:
  "\<exists>text s'. execute_tool_call env s tool_name (JObj kvs) = (Inr text, s') \<and> text \<noteq> []
     \<and> (tool_name \<noteq> JStr ''get_weather'' \<longrightarrow> text = ''Unknown tool: '' @ fmt env tool_name \<and> s' = s)"
  by (auto simp: execute_tool_call_def split: prod.splits option.splits dest: get_weather_nonempty)

theorem execute_tool_call_total_witness:
  "JStr ''get_time'' \<noteq> JStr ''get_weather'' \<and>
   execute_tool_call (scripted_env ''key'' RequestFailed RequestFailed (StatusError 404))
       (new_session []) (JStr ''get_time'') (JObj []) = (Inr ''Unknown tool: get_time'', new_session [])"
  using execute_tool_call_total [of "scripted_env ''key'' RequestFailed RequestFailed (StatusError 404)"
      "new_session []" "JStr ''get_time''" "[]"]
  by (auto simp: fmt_def)

text \<open>
  C9. When the arguments of a \<open>get_weather\<close> call have no \<open>location\<close> key, tool
  execution does not fail: it is \<open>get_weather\<close> on the empty string, and that text is
  what is returned.
\<close>

theorem missing_location_is_empty_string:
  "map_of kvs ''location'' = None \<Longrightarrow>
   execute_tool_call env s (JStr ''get_weather'') (JObj kvs) =
     (Inr (fst (get_weather env s (JStr ''''))), snd (get_weather env s (JStr '''')))"
  by (simp add: execute_tool_call_def split: prod.splits)

theorem missing_location_is_empty_string_witness:
  "map_of [(''units'', JStr ''metric'')] ''location'' = None \<and>
   execute_tool_call (scripted_env ''key'' RequestFailed RequestFailed (StatusError 404))
       (new_session []) (JStr ''get_weather'') (JObj [(''units'', JStr ''metric'')]) =
     (Inr (''Location '' @ [CHR 0x27, CHR 0x27] @ '' not found. Please check the city name.''),
      (new_session [])\<lparr>trace := [WeatherCall (JStr '''')]\<rparr>)"
  using missing_location_is_empty_string [of "[(''units'', JStr ''metric'')]"
      "scripted_env ''key'' RequestFailed RequestFailed (StatusError 404)" "new_session []"]
  by (simp add: get_weather_def get_weather_body_def scripted_env_def new_session_def fmt_def)

section \<open>What one reasoning step does to the session\<close>

lemma llm_calls_simps [simp]:
  "llm_calls [] = 0" "llm_calls (xs @ ys) = llm_calls xs + llm_calls ys"
  "llm_calls (c # cs) = (if is_llm_call c then 1 else 0) + llm_calls cs"
  by (simp_all add: llm_calls_def)

lemma tool_runs_simps [simp]:
  "tool_runs [] = 0" "tool_runs (xs @ ys) = tool_runs xs + tool_runs ys"
  "tool_runs (c # cs) = (if is_weather_call c then 1 else 0) + tool_runs cs"
  by (simp_all add: tool_runs_def)

lemma llm_request_effect:
  "llm_request env s p = (r, s') \<Longrightarrow>
     conversation_history s' = conversation_history s \<and> audio_buffer s' = audio_buffer s \<and>
     sent s' = sent s \<and> trace s' = trace s @ [LlmCall p]"
  by (auto simp: llm_request_def Let_def split: prod.splits)

lemma get_weather_effect:
  "get_weather env s l = (t, s') \<Longrightarrow>
     conversation_history s' = conversation_history s \<and> audio_buffer s' = audio_buffer s \<and>
     sent s' = sent s \<and> (trace s' = trace s \<or> trace s' = trace s @ [WeatherCall l])"
  by (auto simp: get_weather_def get_weather_body_def Let_def
      split: prod.splits sum.splits py_exn.splits if_splits)

lemma execute_tool_call_effect:
  "execute_tool_call env s n a = (r, s') \<Longrightarrow>
     conversation_history s' = conversation_history s \<and> audio_buffer s' = audio_buffer s \<and>
     sent s' = sent s \<and>
     (trace s' = trace s \<or>
      (\<exists>l. trace s' = trace s @ [WeatherCall l] \<and> n = JStr ''get_weather'' \<and>
           dict_get a ''location'' (JStr []) = Inr l))"
  by (fastforce simp: execute_tool_call_def split: prod.splits sum.splits if_splits
      dest!: get_weather_effect)

lemma final_response_effect:
  "final_response s msg = (r, s') \<Longrightarrow>
     audio_buffer s' = audio_buffer s \<and> sent s' = sent s \<and> trace s' = trace s \<and>
     (case r of Inl e \<Rightarrow> conversation_history s' = conversation_history s
      | Inr reply \<Rightarrow> conversation_history s' =
          trim_history (conversation_history s @ [reply_entry reply]))"
  by (auto simp: final_response_def split: sum.splits)

lemma parse_tool_call_first:
  "parse_tool_call env msg = Inr (tool_call, function_name, function_args) \<Longrightarrow>
     bindE (getitem msg ''tool_calls'') getitem0 = Inr tool_call"
  by (auto simp: parse_tool_call_def bindE_eq_Inr)

lemma tool_call_step_effect:
  assumes "tool_call_step env s msg = (r, s')"
  shows "audio_buffer s' = audio_buffer s \<and> sent s' = sent s \<and>
     (\<exists>extra calls. trace s' = trace s @ calls \<and> tool_runs calls \<le> 1 \<and>
        (\<forall>l. WeatherCall l \<in> set calls \<longrightarrow> first_listed_location env msg l) \<and>
        llm_calls calls = (if tool_call_succeeds env s msg then 1 else 0) \<and>
        tool_entries extra \<and> (length extra = 2 \<longleftrightarrow> tool_call_succeeds env s msg) \<and>
        (case r of Inl e \<Rightarrow> conversation_history s' = conversation_history s @ extra
         | Inr reply \<Rightarrow> conversation_history s' =
             trim_history (conversation_history s @ extra @ [reply_entry reply])))"
proof (cases "parse_tool_call env msg")
  case (Inl e)
  with assms have "r = Inl e" "s' = s" by (auto simp: tool_call_step_def)
  with Inl show ?thesis
    by (auto simp: tool_entries_def tool_call_succeeds_def intro!: exI [of _ "[]"])
next
  case (Inr p)
  obtain tool_call function_name function_args where p: "p = (tool_call, function_name, function_args)"
    by (cases p) auto
  obtain r1 s1 where ex: "execute_tool_call env s function_name function_args = (r1, s1)"
    by fastforce
  from execute_tool_call_effect [OF ex] parse_tool_call_first [of env msg] Inr p obtain c1 where
    s1: "conversation_history s1 = conversation_history s" "audio_buffer s1 = audio_buffer s"
        "sent s1 = sent s" "trace s1 = trace s @ c1"
    and c1: "llm_calls c1 = 0" "tool_runs c1 \<le> 1"
        "\<forall>l. WeatherCall l \<in> set c1 \<longrightarrow> first_listed_location env msg l"
    by (fastforce simp: first_listed_location_def)
  show ?thesis
  proof (cases r1)
    case (Inl e)
    with assms Inr p ex have "r = Inl e" "s' = s1" by (auto simp: tool_call_step_def)
    with s1 c1 Inl Inr p ex show ?thesis
      by (auto simp: tool_entries_def tool_call_succeeds_def intro!: exI [of _ "[]"] exI [of _ c1])
  next
    case r1: (Inr tool_result)
    show ?thesis
    proof (cases "getitem msg ''tool_calls''")
      case (Inl e)
      with Inr p have False by (auto simp: parse_tool_call_def)
      then show ?thesis ..
    next
      case tcs: (Inr tool_calls)
      define s2 where "s2 = append_history s1 (invocation_entry tool_calls)"
      show ?thesis
      proof (cases "getitem tool_call ''id''")
        case (Inl e)
        with assms Inr p ex r1 tcs have "r = Inl e" "s' = s2"
          by (auto simp: tool_call_step_def s2_def)
        with s1 c1 Inl Inr p ex r1 show ?thesis
          by (auto simp: tool_entries_def s2_def append_history_def tool_call_succeeds_def
              intro!: exI [of _ "[invocation_entry tool_calls]"] exI [of _ c1])
      next
        case cid: (Inr call_id)
        define s3 where "s3 = append_history s2 (result_entry call_id function_name tool_result)"
        define pair where "pair = [invocation_entry tool_calls, result_entry call_id function_name tool_result]"
        obtain r4 s4 where rq:
          "llm_request env s3 (chat_payload system_plain (conversation_history s3)) = (r4, s4)"
          by fastforce
        have h3: "conversation_history s3 = conversation_history s @ pair"
          "audio_buffer s3 = audio_buffer s" "sent s3 = sent s" "trace s3 = trace s @ c1"
          using s1 by (auto simp: s3_def s2_def append_history_def pair_def)
        note e4 = llm_request_effect [OF rq]
        have te: "tool_entries pair" "length pair = 2"
          by (auto simp: tool_entries_def pair_def)
        have ok: "tool_call_succeeds env s msg"
          using Inr p ex r1 cid by (simp add: tool_call_succeeds_def)
        have calls: "trace s4 = trace s @ (c1 @ [LlmCall (chat_payload system_plain (conversation_history s3))])"
          using e4 h3 by simp
        show ?thesis
        proof (cases r4)
          case (Inl e)
          with assms Inr p ex r1 tcs cid rq have "r = Inl e" "s' = s4"
            by (auto simp: tool_call_step_def s2_def s3_def Let_def)
          with e4 h3 s1 c1 te ok calls show ?thesis
            by (intro conjI exI [of _ pair]
                exI [of _ "c1 @ [LlmCall (chat_payload system_plain (conversation_history s3))]"])
               auto
        next
          case m2: (Inr message2)
          with assms Inr p ex r1 tcs cid rq have fr: "final_response s4 message2 = (r, s')"
            by (auto simp: tool_call_step_def s2_def s3_def Let_def)
          from final_response_effect [OF fr] e4 h3 s1 c1 te ok calls show ?thesis
            by (intro conjI exI [of _ pair]
                exI [of _ "c1 @ [LlmCall (chat_payload system_plain (conversation_history s3))]"])
               (auto split: sum.splits)
        qed
      qed
    qed
  qed
qed

lemma first_exchange_effect:
  "first_exchange env s m = (r, s2) \<Longrightarrow>
     conversation_history s2 = conversation_history s @ [user_entry m] \<and>
     audio_buffer s2 = audio_buffer s \<and> sent s2 = sent s \<and> (\<exists>p. trace s2 = trace s @ [LlmCall p])"
  by (auto simp: first_exchange_def Let_def append_history_def dest!: llm_request_effect)

lemma chat_body_first:
  "chat_body env s m =
     (case first_exchange env s m of
        (Inl e, s2) \<Rightarrow> (Inl e, s2)
      | (Inr message, s2) \<Rightarrow>
          (case dict_get message ''tool_calls'' JNull of
             Inl e \<Rightarrow> (Inl e, s2)
           | Inr tool_calls \<Rightarrow>
               if truthy tool_calls then tool_call_step env s2 message
               else final_response s2 message))"
  by (simp add: chat_body_def first_exchange_def Let_def)

lemma chat_body_effect:
  assumes "chat_body env s m = (r, s')" and fe: "first_exchange env s m = (first, s2)"
  shows "audio_buffer s' = audio_buffer s \<and> sent s' = sent s \<and>
     (\<exists>extra calls. trace s' = trace s @ calls \<and> tool_runs calls \<le> 1 \<and>
        (\<forall>l. WeatherCall l \<in> set calls \<longrightarrow>
           (\<exists>message. first = Inr message \<and> first_listed_location env message l)) \<and>
        llm_calls calls =
          (if \<exists>message. first = Inr message \<and> requests_tool message \<and> tool_call_succeeds env s2 message
           then 2 else 1) \<and>
        tool_entries extra \<and>
        (length extra = 2 \<longleftrightarrow>
           (\<exists>message. first = Inr message \<and> requests_tool message \<and> tool_call_succeeds env s2 message)) \<and>
        (case r of Inl e \<Rightarrow> conversation_history s' = conversation_history s @ user_entry m # extra
         | Inr reply \<Rightarrow> conversation_history s' =
             trim_history (conversation_history s @ user_entry m # extra @ [reply_entry reply])))"
proof -
  from first_exchange_effect [OF fe] obtain p where
    s2: "conversation_history s2 = conversation_history s @ [user_entry m]"
        "audio_buffer s2 = audio_buffer s" "sent s2 = sent s" "trace s2 = trace s @ [LlmCall p]"
    by auto
  show ?thesis
  proof (cases first)
    case (Inl e)
    with assms have "r = Inl e" "s' = s2" by (auto simp: chat_body_first)
    with s2 Inl show ?thesis
      by (intro conjI exI [of _ "[]"] exI [of _ "[LlmCall p]"]) (auto simp: tool_entries_def)
  next
    case msg: (Inr message)
    show ?thesis
    proof (cases "dict_get message ''tool_calls'' JNull")
      case (Inl e)
      with assms msg have "r = Inl e" "s' = s2" by (auto simp: chat_body_first)
      with s2 Inl msg show ?thesis
        by (intro conjI exI [of _ "[]"] exI [of _ "[LlmCall p]"])
           (auto simp: tool_entries_def requests_tool_def)
    next
      case (Inr tool_calls)
      show ?thesis
      proof (cases "truthy tool_calls")
        case True
        with assms msg Inr have st: "tool_call_step env s2 message = (r, s')"
          by (auto simp: chat_body_first)
        have rt: "requests_tool message" using Inr True by (simp add: requests_tool_def)
        from tool_call_step_effect [OF st] obtain extra calls where
          "audio_buffer s' = audio_buffer s2" "sent s' = sent s2"
          "trace s' = trace s2 @ calls" "tool_runs calls \<le> 1"
          "\<forall>l. WeatherCall l \<in> set calls \<longrightarrow> first_listed_location env message l"
          "llm_calls calls = (if tool_call_succeeds env s2 message then 1 else 0)"
          "tool_entries extra" "length extra = 2 \<longleftrightarrow> tool_call_succeeds env s2 message"
          "(case r of Inl e \<Rightarrow> conversation_history s' = conversation_history s2 @ extra
            | Inr reply \<Rightarrow> conversation_history s' =
                trim_history (conversation_history s2 @ extra @ [reply_entry reply]))"
          by blast
        with s2 msg rt show ?thesis
          by (intro conjI exI [of _ extra] exI [of _ "LlmCall p # calls"])
             (auto split: sum.splits)
      next
        case False
        with assms msg Inr have fr: "final_response s2 message = (r, s')"
          by (auto simp: chat_body_first)
        have rt: "\<not> requests_tool message" using Inr False by (simp add: requests_tool_def)
        from final_response_effect [OF fr] s2 msg rt show ?thesis
          by (intro conjI exI [of _ "[]"] exI [of _ "[LlmCall p]"])
             (auto simp: tool_entries_def split: sum.splits)
      qed
    qed
  qed
qed

section \<open>What the pipeline and the session do to the history and the events\<close>

lemma transcribe_audio_effect:
  "transcribe_audio env s a = (r, s') \<Longrightarrow>
     conversation_history s' = conversation_history s \<and> audio_buffer s' = audio_buffer s \<and>
     sent s' = sent s \<and> trace s' = trace s @ [SttCall a]"
  by (auto simp: transcribe_audio_def Let_def split: prod.splits)

lemma text_to_speech_effect:
  "text_to_speech env s t = (r, s') \<Longrightarrow>
     conversation_history s' = conversation_history s \<and> audio_buffer s' = audio_buffer s \<and>
     sent s' = sent s \<and> (trace s' = trace s \<or> trace s' = trace s @ [TtsCall (tts_payload t)])"
  by (auto simp: text_to_speech_def Let_def split: prod.splits if_splits)

lemma send_json_effect:
  "send_json env s ev = (ok, s') \<Longrightarrow>
     conversation_history s' = conversation_history s \<and> audio_buffer s' = audio_buffer s \<and>
     trace s' = trace s \<and> sent s' = (if ok then sent s @ [ev] else sent s)"
  by (auto simp: send_json_def Let_def split: prod.splits)

lemma stored_role_entries [simp]:
  "stored_role (user_entry m)" "stored_role (invocation_entry tcs)"
  "stored_role (result_entry i n t)" "stored_role (reply_entry r)"
  by (simp_all add: stored_role_def user_entry_def invocation_entry_def result_entry_def reply_entry_def)

lemma tool_entries_stored: "tool_entries extra \<Longrightarrow> e \<in> set extra \<Longrightarrow> stored_role e"
  by (auto simp: tool_entries_def)

text \<open>How a step may change the history: entries with a stored role are appended, and
  the result is kept whole or cut to its last 10 entries.\<close>

lemma chat_with_llm_history:
  assumes "chat_with_llm env s m = (reply, s')"
  shows "audio_buffer s' = audio_buffer s \<and> sent s' = sent s \<and>
    (\<exists>new. (\<forall>e\<in>set new. stored_role e) \<and>
       (conversation_history s' = conversation_history s @ new \<or>
        10 < length (conversation_history s @ new) \<and>
        conversation_history s' =
          drop (length (conversation_history s @ new) - 10) (conversation_history s @ new)))"
proof -
  obtain r s1 where cb: "chat_body env s m = (r, s1)" by fastforce
  obtain first s2 where fe: "first_exchange env s m = (first, s2)" by fastforce
  from assms cb have s': "s' = s1" by (auto simp: chat_with_llm_def split: sum.splits)
  from chat_body_effect [OF cb fe] obtain extra where
    e: "audio_buffer s1 = audio_buffer s" "sent s1 = sent s" "tool_entries extra"
      "(case r of Inl e \<Rightarrow> conversation_history s1 = conversation_history s @ user_entry m # extra
         | Inr reply \<Rightarrow> conversation_history s1 =
             trim_history (conversation_history s @ user_entry m # extra @ [reply_entry reply]))"
    by auto
  show ?thesis
  proof (cases r)
    case (Inl x)
    with e s' show ?thesis
      by (intro conjI exI [of _ "user_entry m # extra"]) (auto dest: tool_entries_stored)
  next
    case (Inr x)
    with e s' show ?thesis
      by (intro conjI exI [of _ "user_entry m # extra @ [reply_entry x]"])
         (auto dest: tool_entries_stored simp: trim_history_def)
  qed
qed

lemma process_voice_input_history:
  assumes "process_voice_input env s a = (r, s')"
  shows "audio_buffer s' = audio_buffer s \<and> sent s' = sent s \<and>
    (\<exists>new. (\<forall>e\<in>set new. stored_role e) \<and>
       (conversation_history s' = conversation_history s @ new \<or>
        10 < length (conversation_history s @ new) \<and>
        conversation_history s' =
          drop (length (conversation_history s @ new) - 10) (conversation_history s @ new)))"
proof -
  obtain t s1 where tr: "transcribe_audio env s a = (t, s1)" by fastforce
  note e1 = transcribe_audio_effect [OF tr]
  show ?thesis
  proof (cases "t = None \<or> t = Some []")
    case True
    with assms tr have "s' = s1" by (auto simp: process_voice_input_def)
    with e1 show ?thesis by (intro conjI exI [of _ "[]"]) auto
  next
    case False
    then obtain said where t: "t = Some said" "said \<noteq> []" by auto
    obtain reply s2 where ch: "chat_with_llm env s1 said = (reply, s2)" by fastforce
    with assms tr t have ts: "text_to_speech env s2 reply = (r, s')"
      by (auto simp: process_voice_input_def)
    from chat_with_llm_history [OF ch] text_to_speech_effect [OF ts] e1 show ?thesis
      by auto
  qed
qed


lemma send_or_raise_history [simp]:
  "conversation_history (final_session (send_or_raise env s ev)) = conversation_history s"
  by (auto simp: send_or_raise_def send_json_def Let_def split: prod.splits)

lemma send_json_history [simp]:
  "conversation_history (snd (send_json env s ev)) = conversation_history s"
  by (auto simp: send_json_def Let_def split: prod.splits)

lemma then_send_history [simp]:
  "conversation_history (final_session (case X of Inl a \<Rightarrow> Inl a | Inr b \<Rightarrow> send_or_raise env b ev)) =
   conversation_history (final_session X)"
  by (cases X) simp_all

lemma on_audio_end_history:
  "\<exists>new. (\<forall>e\<in>set new. stored_role e) \<and>
     (conversation_history (final_session (on_audio_end env s)) = conversation_history s @ new \<or>
      10 < length (conversation_history s @ new) \<and>
      conversation_history (final_session (on_audio_end env s)) =
        drop (length (conversation_history s @ new) - 10) (conversation_history s @ new))"
proof (cases "audio_buffer s = []")
  case True
  then show ?thesis by (intro exI [of _ "[]"]) (simp add: on_audio_end_def)
next
  case False
  show ?thesis
  proof (cases "send_or_raise env s (status_event ''processing'')")
    case (Inl s1)
    with send_or_raise_history [of env s "status_event ''processing''"] False show ?thesis
      by (intro exI [of _ "[]"]) (simp add: on_audio_end_def)
  next
    case (Inr s1)
    with send_or_raise_history [of env s "status_event ''processing''"]
    have h1: "conversation_history s1 = conversation_history s" by simp
    obtain r s2 where pv: "process_voice_input env s1 (audio_buffer s1) = (r, s2)" by fastforce
    have "conversation_history (final_session (on_audio_end env s)) = conversation_history s2"
      using False Inr pv by (simp add: on_audio_end_def Let_def split: option.splits)
    with process_voice_input_history [OF pv] h1 show ?thesis by simp
  qed
qed

lemma handle_frame_history:
  "\<exists>new. (\<forall>e\<in>set new. stored_role e) \<and>
     (conversation_history (final_session (handle_frame env s fr)) = [] \<or>
      conversation_history (final_session (handle_frame env s fr)) = conversation_history s @ new \<or>
      10 < length (conversation_history s @ new) \<and>
      conversation_history (final_session (handle_frame env s fr)) =
        drop (length (conversation_history s @ new) - 10) (conversation_history s @ new))"
proof -
  have "handle_frame env s fr = on_audio_end env s \<or> handle_frame env s fr = on_reset env s \<or>
      conversation_history (final_session (handle_frame env s fr)) = conversation_history s"
    by (simp add: handle_frame_def split: frame.splits option.splits sum.splits)
  then consider (turn) "handle_frame env s fr = on_audio_end env s"
    | (reset) "handle_frame env s fr = on_reset env s"
    | (keep) "conversation_history (final_session (handle_frame env s fr)) = conversation_history s"
    by blast
  then show ?thesis
  proof cases
    case turn
    with on_audio_end_history [of env s] show ?thesis by auto
  next
    case reset
    then show ?thesis by (intro exI [of _ "[]"]) (simp add: on_reset_def)
  next
    case keep
    then show ?thesis by (intro exI [of _ "[]"]) simp
  qed
qed

lemma handle_frame_stored:
  assumes "\<forall>e\<in>set (conversation_history s). stored_role e"
  shows "\<forall>e\<in>set (conversation_history (final_session (handle_frame env s fr))). stored_role e"
  using handle_frame_history [of env s fr] assms by (auto dest!: in_set_dropD)

lemma receive_loop_stored:
  "\<forall>e\<in>set (conversation_history s). stored_role e \<Longrightarrow>
   \<forall>e\<in>set (conversation_history (final_session (receive_loop env s frames))). stored_role e"
proof (induction frames arbitrary: s)
  case Nil
  then show ?case by simp
next
  case (Cons fr frames)
  show ?case
  proof (cases "handle_frame env s fr")
    case (Inl s')
    with handle_frame_stored [OF Cons.prems, of env fr] show ?thesis by simp
  next
    case (Inr s')
    with handle_frame_stored [OF Cons.prems, of env fr]
    have "\<forall>e\<in>set (conversation_history s'). stored_role e" by simp
    from Cons.IH [OF this] Inr show ?thesis by simp
  qed
qed

lemma system_not_stored: "\<not> stored_role system_with_tools" "\<not> stored_role system_plain"
  by (simp_all add: stored_role_def system_with_tools_def system_plain_def)

lemma trim_history_last_ten: "trim_history h = rev (take 10 (rev h))"
  by (simp add: trim_history_def take_rev)

lemma send_or_raise_buffer [simp]:
  "audio_buffer (final_session (send_or_raise env s ev)) = audio_buffer s"
  by (auto simp: send_or_raise_def send_json_def Let_def split: prod.splits)

lemma chat_with_llm_appends_and_trims:
  "\<exists>extra. tool_entries extra \<and>
     conversation_history (snd (chat_with_llm env s m)) =
       (case fst (chat_body env s m) of
          Inl e \<Rightarrow> conversation_history s @ user_entry m # extra
        | Inr reply \<Rightarrow>
            rev (take 10 (rev (conversation_history s @ user_entry m # extra @ [reply_entry reply]))))"
proof -
  obtain r s' where cb: "chat_body env s m = (r, s')" by fastforce
  obtain first s2 where fe: "first_exchange env s m = (first, s2)" by fastforce
  have "conversation_history (snd (chat_with_llm env s m)) = conversation_history s'"
    using cb by (simp add: chat_with_llm_def split: sum.splits)
  with chat_body_effect [OF cb fe] cb show ?thesis
    by (auto simp: trim_history_last_ten split: sum.splits)
qed

lemma reset_clears:
  assumes "json_loads env t = Some message" and "dict_get message ''type'' JNull = Inr (JStr ''reset'')"
  shows "conversation_history (final_session (handle_frame env s (TextFrame t))) = [] \<and>
     audio_buffer (final_session (handle_frame env s (TextFrame t))) = []"
  using assms by (simp add: handle_frame_def on_reset_def)

lemma turn_history:
  assumes "json_loads env t = Some message" and "dict_get message ''type'' JNull = Inr (JStr ''audio_end'')"
    and ne: "audio_buffer s \<noteq> []"
    and send: "send_json env s (status_event ''processing'') = (True, s1)"
    and tr: "transcribe_audio env s1 (audio_buffer s) = (Some said, s2)" and said: "said \<noteq> []"
  shows "conversation_history (final_session (handle_frame env s (TextFrame t))) =
     conversation_history (snd (chat_with_llm env s2 said))"
proof -
  from send_json_effect [OF send] have b1: "audio_buffer s1 = audio_buffer s" by simp
  from send have sr: "send_or_raise env s (status_event ''processing'') = Inr s1"
    by (simp add: send_or_raise_def)
  obtain reply s3 where ch: "chat_with_llm env s2 said = (reply, s3)" by fastforce
  obtain r s4 where ts: "text_to_speech env s3 reply = (r, s4)" by fastforce
  from tr said ch ts b1 have pv: "process_voice_input env s1 (audio_buffer s1) = (r, s4)"
    by (simp add: process_voice_input_def)
  have "conversation_history (final_session (on_audio_end env s)) = conversation_history s4"
    using ne sr pv by (simp add: on_audio_end_def Let_def split: option.splits)
  with text_to_speech_effect [OF ts] ch assms(1,2) show ?thesis
    by (simp add: handle_frame_def)
qed

text \<open>
  C10. The operations on the history, and what each of them does.
  \<^item> A reasoning step appends: when it raises, the history is the old one followed by the
    user entry and the tool entries appended so far; when it returns, the history is the
    last 10 entries of the old one followed by the user entry, the tool entries and the
    reply entry (all of them when there are at most 10).
  \<^item> A reset message empties the history and the buffer.
  \<^item> A turn-end message that starts a turn with some transcribed text leaves the history
    that the reasoning step leaves; a frame of audio or of neither kind leaves the history
    as it is.
  \<^item> So every iteration of the receive loop leaves the history empty, or extended at its
    end by entries with the roles user, assistant or tool, or cut to the last 10 entries
    of that extension, and the entries kept stay in their order.
  \<^item> In every history the endpoint can reach, each entry has one of these three roles and
    is neither of the two system instructions.
\<close>

theorem history_operations:
  "(\<exists>extra. tool_entries extra \<and>
      conversation_history (snd (chat_with_llm env s m)) =
        (case fst (chat_body env s m) of
           Inl e \<Rightarrow> conversation_history s @ user_entry m # extra
         | Inr reply \<Rightarrow>
             rev (take 10 (rev (conversation_history s @ user_entry m # extra @ [reply_entry reply]))))) \<and>
   (json_loads env t = Some message \<and> dict_get message ''type'' JNull = Inr (JStr ''reset'') \<longrightarrow>
      conversation_history (final_session (handle_frame env s (TextFrame t))) = [] \<and>
      audio_buffer (final_session (handle_frame env s (TextFrame t))) = []) \<and>
   (json_loads env t = Some message \<and> dict_get message ''type'' JNull = Inr (JStr ''audio_end'') \<and>
    audio_buffer s \<noteq> [] \<and> send_json env s (status_event ''processing'') = (True, s1) \<and>
    transcribe_audio env s1 (audio_buffer s) = (Some said, s2) \<and> said \<noteq> [] \<longrightarrow>
      conversation_history (final_session (handle_frame env s (TextFrame t))) =
        conversation_history (snd (chat_with_llm env s2 said))) \<and>
   conversation_history (final_session (handle_frame env s (BytesFrame chunk))) = conversation_history s \<and>
   conversation_history (final_session (handle_frame env s OtherFrame)) = conversation_history s \<and>
   (\<exists>new. (\<forall>e\<in>set new. stored_role e) \<and>
      (conversation_history (final_session (handle_frame env s fr)) = [] \<or>
       conversation_history (final_session (handle_frame env s fr)) = conversation_history s @ new \<or>
       10 < length (conversation_history s @ new) \<and>
       conversation_history (final_session (handle_frame env s fr)) =
         drop (length (conversation_history s @ new) - 10) (conversation_history s @ new))) \<and>
   (\<forall>e\<in>set (conversation_history (final_session (websocket_endpoint env w frames))).
      stored_role e \<and> e \<noteq> system_with_tools \<and> e \<noteq> system_plain)"
proof -
  have roles: "\<forall>e\<in>set (conversation_history (final_session (websocket_endpoint env w frames))). stored_role e"
    unfolding websocket_endpoint_def
    by (rule receive_loop_stored) (simp add: new_session_def)
  have frames: "conversation_history (final_session (handle_frame env s (BytesFrame chunk))) = conversation_history s"
    "conversation_history (final_session (handle_frame env s OtherFrame)) = conversation_history s"
    by (simp_all add: handle_frame_def)
  from roles system_not_stored have
    "\<forall>e\<in>set (conversation_history (final_session (websocket_endpoint env w frames))).
      stored_role e \<and> e \<noteq> system_with_tools \<and> e \<noteq> system_plain" by blast
  with chat_with_llm_appends_and_trims [of env s m] reset_clears [of env t message s]
    turn_history [of env t message s s1 said s2] frames handle_frame_history [of env s fr]
  show ?thesis by (intro conjI impI) blast+
qed




section \<open>The examples, evaluated\<close>

lemmas run_defs = websocket_endpoint_def new_session_def buffered_def handle_frame_def
  scripted_env_def example_loads_def on_audio_end_def on_reset_def send_or_raise_def send_json_def
  process_voice_input_def transcribe_audio_def stt_text_def strip_def is_space_def
  chat_with_llm_def chat_body_def llm_request_def append_history_def text_to_speech_def Let_def
  services_up_def nothing_said_def audio_end_text_def tokyo_text_def one_turn_def
  final_response_def tool_call_step_def parse_tool_call_def llm_message_def trim_history_def
  execute_tool_call_def get_weather_def get_weather_body_def loads_def plain_message_def
  tool_message_def weather_call_def fmt_def script_two_tool_calls_def script_bad_arguments_def
  script_no_id_def script_null_content_def script_six_replies_def script_content_true_def
  script_follow_up_fails_def reset_text_def ten_entries_def full_session_def six_turns_def

theorem history_operations_witness:
  "conversation_history (final_session (websocket_endpoint services_up script_six_replies six_turns)) =
     [user_entry ''hello'', reply_entry (JStr ''r2''), user_entry ''hello'', reply_entry (JStr ''r3''),
      user_entry ''hello'', reply_entry (JStr ''r4''), user_entry ''hello'', reply_entry (JStr ''r5''),
      user_entry ''hello'', reply_entry (JStr ''r6'')] \<and>
   conversation_history (final_session (websocket_endpoint services_up script_six_replies
      (six_turns @ [TextFrame reset_text]))) = [] \<and>
   fst (chat_body services_up full_session ''hello'') = Inr (JStr ''r6'') \<and>
   conversation_history (snd (chat_with_llm services_up full_session ''hello'')) =
     drop 2 (ten_entries @ [user_entry ''hello'', reply_entry (JStr ''r6'')]) \<and>
   conversation_history (final_session (handle_frame services_up full_session (TextFrame audio_end_text))) =
     drop 2 (ten_entries @ [user_entry ''hello'', reply_entry (JStr ''r6'')]) \<and>
   conversation_history (final_session (handle_frame services_up full_session (TextFrame reset_text))) = [] \<and>
   audio_buffer (final_session (handle_frame services_up full_session (TextFrame reset_text))) = [] \<and>
   stored_role (user_entry ''hello'') \<and> user_entry ''hello'' \<noteq> system_with_tools \<and>
   stored_role (reply_entry (JStr ''r6'')) \<and> reply_entry (JStr ''r6'') \<noteq> system_plain"
proof -
  have six: "conversation_history (final_session (websocket_endpoint services_up script_six_replies six_turns)) =
     [user_entry ''hello'', reply_entry (JStr ''r2''), user_entry ''hello'', reply_entry (JStr ''r3''),
      user_entry ''hello'', reply_entry (JStr ''r4''), user_entry ''hello'', reply_entry (JStr ''r5''),
      user_entry ''hello'', reply_entry (JStr ''r6'')]"
    by (simp add: run_defs)
  have six_reset: "conversation_history (final_session (websocket_endpoint services_up script_six_replies
      (six_turns @ [TextFrame reset_text]))) = []"
    by (simp add: run_defs)
  have body: "fst (chat_body services_up full_session ''hello'') = Inr (JStr ''r6'')"
    by (simp add: run_defs)
  have step: "conversation_history (snd (chat_with_llm services_up full_session ''hello'')) =
     drop 2 (ten_entries @ [user_entry ''hello'', reply_entry (JStr ''r6'')])"
    by (simp add: run_defs)
  have reset: "json_loads services_up reset_text = Some (JObj [(''type'', JStr ''reset'')])"
    "dict_get (JObj [(''type'', JStr ''reset'')]) ''type'' JNull = Inr (JStr ''reset'')"
    by (simp_all add: run_defs)
  have cleared:
    "conversation_history (final_session (handle_frame services_up full_session (TextFrame reset_text))) = [] \<and>
     audio_buffer (final_session (handle_frame services_up full_session (TextFrame reset_text))) = []"
    using reset
      history_operations [where env = services_up and s = full_session and t = reset_text
        and message = "JObj [(''type'', JStr ''reset'')]"]
    by blast
  have turn: "json_loads services_up audio_end_text = Some (JObj [(''type'', JStr ''audio_end'')])"
    "dict_get (JObj [(''type'', JStr ''audio_end'')]) ''type'' JNull = Inr (JStr ''audio_end'')"
    "audio_buffer full_session \<noteq> []"
    "send_json services_up full_session (status_event ''processing'') =
       (True, full_session\<lparr>sent := [status_event ''processing'']\<rparr>)"
    "transcribe_audio services_up (full_session\<lparr>sent := [status_event ''processing'']\<rparr>)
       (audio_buffer full_session) =
       (Some ''hello'', full_session\<lparr>sent := [status_event ''processing''], trace := [SttCall [1, 2]]\<rparr>)"
    "''hello'' \<noteq> []"
    by (simp_all add: run_defs)
  have "conversation_history (final_session (handle_frame services_up full_session (TextFrame audio_end_text))) =
     conversation_history (snd (chat_with_llm services_up
       (full_session\<lparr>sent := [status_event ''processing''], trace := [SttCall [1, 2]]\<rparr>) ''hello''))"
    using turn
      history_operations [where env = services_up and s = full_session and t = audio_end_text
        and message = "JObj [(''type'', JStr ''audio_end'')]"
        and ?s1.0 = "full_session\<lparr>sent := [status_event ''processing'']\<rparr>" and said = "''hello''"
        and ?s2.0 = "full_session\<lparr>sent := [status_event ''processing''], trace := [SttCall [1, 2]]\<rparr>"]
    by blast
  also have "\<dots> = drop 2 (ten_entries @ [user_entry ''hello'', reply_entry (JStr ''r6'')])"
    by (simp add: run_defs)
  finally have turned:
    "conversation_history (final_session (handle_frame services_up full_session (TextFrame audio_end_text))) =
     drop 2 (ten_entries @ [user_entry ''hello'', reply_entry (JStr ''r6'')])" .
  have roles: "stored_role (user_entry ''hello'') \<and> user_entry ''hello'' \<noteq> system_with_tools \<and>
   stored_role (reply_entry (JStr ''r6'')) \<and> reply_entry (JStr ''r6'') \<noteq> system_plain"
    by (simp add: user_entry_def reply_entry_def system_with_tools_def system_plain_def stored_role_def)
  from six six_reset body step turned cleared roles show ?thesis by blast
qed


section \<open>A turn in which nothing was transcribed\<close>




section \<open>Requests to the reasoning service in one turn\<close>

text \<open>
  C4 as the specification states it, two requests whenever the first response carries a
  tool call, does not hold: when the arguments of the first listed tool call are not JSON,
  the response carries a tool call and the turn makes one request only.
\<close>

theorem reasoning_calls_per_turn_counterexample:
  "requests_tool (tool_message [weather_call [(''id'', JStr ''call_1'')] ''Tokyo'']) \<and>
   llm_calls (trace (snd (chat_with_llm services_up (new_session script_bad_arguments) ''hello''))) = 1"
  by (simp add: run_defs requests_tool_def)

text \<open>
  C4, amended. A reasoning step makes one or two requests to the reasoning service: two
  exactly when the first request succeeds, its response carries a tool call, and the
  first listed tool call is processed without an exception; one in every other case (the
  first request fails, the response carries no tool call, or processing the tool call
  fails). At most one tool execution reaches the weather service, and it is for the
  location of the first listed tool call. What the follow-up response holds changes
  nothing.
\<close>

theorem reasoning_calls_per_turn:
  assumes "chat_with_llm env s m = (reply, s')" and "first_exchange env s m = (first, s2)"
  shows "\<exists>calls. trace s' = trace s @ calls \<and>
     llm_calls calls =
       (if \<exists>message. first = Inr message \<and> requests_tool message \<and> tool_call_succeeds env s2 message
        then 2 else 1) \<and>
     tool_runs calls \<le> 1 \<and>
     (\<forall>l. WeatherCall l \<in> set calls \<longrightarrow>
        (\<exists>message. first = Inr message \<and> first_listed_location env message l))"
proof -
  obtain r s1 where cb: "chat_body env s m = (r, s1)" by fastforce
  with assms(1) have "s' = s1" by (auto simp: chat_with_llm_def split: sum.splits)
  with chat_body_effect [OF cb assms(2)] show ?thesis by blast
qed

theorem reasoning_calls_per_turn_witness:
  "requests_tool (JObj [(''role'', JStr ''assistant''), (''content'', JStr ''One moment''),
                        (''tool_calls'', JArr [weather_call [(''id'', JStr ''call_3'')] tokyo_text])]) \<and>
   fst (chat_with_llm services_up (new_session script_two_tool_calls) ''hello'') = JStr ''One moment'' \<and>
   world (snd (chat_with_llm services_up (new_session script_two_tool_calls) ''hello'')) =
     [llm_message (plain_message ''Hi'')] \<and>
   llm_calls (trace (snd (chat_with_llm services_up (new_session script_two_tool_calls) ''hello''))) = 2 \<and>
   filter is_weather_call (trace (snd (chat_with_llm services_up (new_session script_two_tool_calls) ''hello''))) =
     [WeatherCall (JStr ''Tokyo'')]"
  using reasoning_calls_per_turn [of services_up "new_session script_two_tool_calls" "''hello''"
      "fst (chat_with_llm services_up (new_session script_two_tool_calls) ''hello'')"
      "snd (chat_with_llm services_up (new_session script_two_tool_calls) ''hello'')"
      "fst (first_exchange services_up (new_session script_two_tool_calls) ''hello'')"
      "snd (first_exchange services_up (new_session script_two_tool_calls) ''hello'')"]
  by (simp add: run_defs requests_tool_def)

section \<open>A reasoning step that fails\<close>




lemma object_get: "is_object v \<Longrightarrow> \<exists>x. dict_get v k d = Inr x"
  by (cases v) (simp_all split: option.splits)














section \<open>A final response without text\<close>

text \<open>When the final message has no \<open>content\<close> key, the reply is the phrase \<open>not_sure_reply\<close>.\<close>

lemma absent_content_reply:
  "map_of kvs ''content'' = None \<Longrightarrow> fst (final_response s (JObj kvs)) = Inr (JStr not_sure_reply)"
  by (simp add: final_response_def)

text \<open>
  C7 asks for the phrase \<open>not_sure_reply\<close> also when the content is null. The code does
  not give it: for a final message whose \<open>content\<close> is null, the reply of
  \<open>chat_with_llm\<close> is null itself, a reply entry with null content is stored, and the
  turn ends with the error event, since synthesis cannot take a null text.
\<close>

theorem null_content_reply:
  "fst (chat_with_llm services_up (new_session script_null_content) ''hello'') = JNull \<and>
   conversation_history (final_session (websocket_endpoint services_up script_null_content one_turn)) =
     [user_entry ''hello'', reply_entry JNull] \<and>
   sent (final_session (websocket_endpoint services_up script_null_content one_turn)) =
     [status_event ''processing'', error_event, status_event ''ready'']"
  by (simp add: run_defs)

section \<open>The cap of 10 entries\<close>

lemma trim_history_length: "length (trim_history h) \<le> 10"
  by (simp add: trim_history_def)

text \<open>A reasoning step that returns without an exception leaves at most 10 entries.\<close>

lemma successful_turn_within_cap:
  assumes "chat_body env s m = (Inr reply, s')"
  shows "length (conversation_history s') \<le> 10"
proof -
  obtain first s2 where fe: "first_exchange env s m = (first, s2)" by fastforce
  from chat_body_effect [OF assms fe] show ?thesis by (auto simp: trim_history_length)
qed

text \<open>
  C3 asks for at most 10 entries after every turn, failed or not. The code does not
  keep to it: the trim is on the path without exception only. After 11 turns on a new
  connection, during which every request to the reasoning service fails, the history
  holds 11 entries.
\<close>

theorem history_exceeds_cap:
  "length (conversation_history (final_session (websocket_endpoint services_up []
      (concat (replicate 11 one_turn))))) = 11"
  by (simp add: run_defs eval_nat_numeral)

section \<open>Tool invocations and their results in the history\<close>

text \<open>
  C8 asks that an invocation entry is always followed at once by its result entry. The
  code does not keep to it: when the first listed tool call of a response has no
  \<open>id\<close>, the invocation entry is appended and the result entry is not; after the next
  turn the invocation entry is followed by a user entry.
\<close>

theorem unpaired_invocation_entry:
  "conversation_history (final_session (websocket_endpoint services_up script_no_id (one_turn @ one_turn))) =
     [user_entry ''hello'', invocation_entry (JArr [weather_call [] tokyo_text]),
      user_entry ''hello'', reply_entry (JStr ''Hi'')]"
  by (simp add: run_defs)

end
